theory Spec2Isabelle
  imports Main "HOL-Library.Char_ord" "HOL-Library.List_Lexorder" "HOL-Library.Product_Lexorder"
begin

section \<open>The trigger worker (cloudflare-worker/worker.js)\<close>

text \<open>
  The worker has two handlers, \<open>scheduled\<close> (the cron trigger) and \<open>fetch\<close> (HTTP), and
  one helper, \<open>triggerWorkflow\<close>. The network is a parameter: a function from the request
  the worker sends to what the Fetch API does with it. A rejected promise and a throwing
  \<open>response.text()\<close> carry the \<open>message\<close> of the Error object thrown.
\<close>

record worker_env =
  GITHUB_TOKEN :: "string option"

record http_request =
  req_url :: string
  req_method :: string
  req_headers :: "(string \<times> string) list"
  req_body :: string

datatype text_outcome = TextOk string | TextThrows string

datatype fetch_outcome = Rejected string | Responded nat text_outcome

type_synonym network = "http_request \<Rightarrow> fetch_outcome"

text \<open>The object literals \<open>triggerWorkflow\<close> returns; a key the literal omits is \<open>None\<close>.\<close>

record trigger_result =
  success :: bool
  message :: "string option"
  timestamp :: "string option"
  status :: "nat option"
  error :: "string option"

datatype 'a completion = Returned 'a | Thrown string

definition REPO :: string where
  "REPO = ''lairulan/skill-digest''"

definition dq :: string where
  "dq = [CHR 0x22]"

text \<open>\<open>JSON.stringify({event_type: 'daily-skill-digest'})\<close>.\<close>

definition dispatch_body :: string where
  "dispatch_body = ''{'' @ dq @ ''event_type'' @ dq @ '':'' @ dq @ ''daily-skill-digest'' @ dq @ ''}''"

definition dispatch_request :: "string \<Rightarrow> http_request" where
  "dispatch_request tok =
     \<lparr> req_url = ''https://api.github.com/repos/'' @ REPO @ ''/dispatches'',
       req_method = ''POST'',
       req_headers =
         [(''Authorization'', ''Bearer '' @ tok),
          (''Accept'', ''application/vnd.github.v3+json''),
          (''User-Agent'', ''Cloudflare-Worker-Skill-Digest''),
          (''Content-Type'', ''application/json'')],
       req_body = dispatch_body \<rparr>"

text \<open>
  The body of the \<open>try\<close> block: the value it returns or the message of what it throws,
  with the requests sent. \<open>now\<close> is \<open>new Date().toISOString()\<close>.
\<close>

definition try_block :: "string \<Rightarrow> network \<Rightarrow> string \<Rightarrow> trigger_result completion \<times> http_request list" where
  "try_block tok net now =
     (let rq = dispatch_request tok in
      case net rq of
        Rejected msg \<Rightarrow> (Thrown msg, [rq])
      | Responded st txt \<Rightarrow>
          (if st = 204 then
             (Returned \<lparr> success = True, message = Some ''Workflow triggered successfully'',
                         timestamp = Some now, status = None, error = None \<rparr>, [rq])
           else
             (case txt of
                TextThrows msg \<Rightarrow> (Thrown msg, [rq])
              | TextOk text \<Rightarrow>
                  (Returned \<lparr> success = False, message = None, timestamp = None,
                              status = Some st, error = Some text \<rparr>, [rq]))))"

text \<open>\<open>!GITHUB_TOKEN\<close>: an unset variable and the empty string are both falsy.\<close>

definition falsy :: "string option \<Rightarrow> bool" where
  "falsy t = (case t of None \<Rightarrow> True | Some s \<Rightarrow> s = [])"

definition triggerWorkflow :: "worker_env \<Rightarrow> network \<Rightarrow> string \<Rightarrow> trigger_result completion \<times> http_request list" where
  "triggerWorkflow env net now =
     (if falsy (GITHUB_TOKEN env) then
        (Returned \<lparr> success = False, message = None, timestamp = None, status = None,
                    error = Some ''GITHUB_TOKEN not configured'' \<rparr>, [])
      else
        (case try_block (the (GITHUB_TOKEN env)) net now of
           (Returned r, sent) \<Rightarrow> (Returned r, sent)
         | (Thrown msg, sent) \<Rightarrow>
             (Returned \<lparr> success = False, message = None, timestamp = None, status = None,
                         error = Some msg \<rparr>, sent)))"

text \<open>
  The two handlers. \<open>scheduled\<close> writes the result to the console; \<open>fetch\<close> answers the
  path \<open>/trigger\<close> with the result and every other path with the description of the
  worker. A request is given by the \<open>pathname\<close> of \<open>new URL(request.url)\<close>.
\<close>

record request =
  url_pathname :: string

datatype response_body = ResultJson trigger_result | InfoJson

record response =
  body :: response_body
  headers :: "(string \<times> string) list"

record 'a handled =
  value_of :: "'a completion"
  sent :: "http_request list"
  console :: "trigger_result list"

definition scheduled :: "worker_env \<Rightarrow> network \<Rightarrow> string \<Rightarrow> unit handled" where
  "scheduled env net now =
     (case triggerWorkflow env net now of
        (Returned result, rqs) \<Rightarrow> \<lparr> value_of = Returned (), sent = rqs, console = [result] \<rparr>
      | (Thrown msg, rqs) \<Rightarrow> \<lparr> value_of = Thrown msg, sent = rqs, console = [] \<rparr>)"

definition fetch :: "request \<Rightarrow> worker_env \<Rightarrow> network \<Rightarrow> string \<Rightarrow> response handled" where
  "fetch rq env net now =
     (if url_pathname rq = ''/trigger'' then
        (case triggerWorkflow env net now of
           (Returned result, rqs) \<Rightarrow>
             \<lparr> value_of = Returned \<lparr> body = ResultJson result,
                                    headers = [(''Content-Type'', ''application/json'')] \<rparr>,
               sent = rqs, console = [] \<rparr>
         | (Thrown msg, rqs) \<Rightarrow> \<lparr> value_of = Thrown msg, sent = rqs, console = [] \<rparr>)
      else
        \<lparr> value_of = Returned \<lparr> body = InfoJson,
                               headers = [(''Content-Type'', ''application/json'')] \<rparr>,
          sent = [], console = [] \<rparr>)"

section \<open>Catalog, ledger and selector (spec sections 3, 4.2 and 4.3)\<close>

text \<open>
  \<open>scripts/select_daily.py\<close>, \<open>scripts/fetch_skills.py\<close> and
  \<open>scripts/generate_article.py\<close> are not among the sources; the driver script only calls
  them. The data model and the two operations of \<open>select_daily.py\<close> are therefore
  modelled from the spec. Dates are \<open>YYYY-MM-DD\<close> strings, as \<open>date '+%Y-%m-%d'\<close> prints
  them, so the lexicographic order of strings is the order of the calendar.
\<close>

record CandidateItem =
  identity :: string
  name :: string
  category :: string
  sourceUrl :: string
  lastUpdatedAt :: "nat option"
  official :: bool

record PublicationRecord =
  rec_identity :: string
  rec_category :: string
  publishedAt :: string

type_synonym catalog = "CandidateItem list"
type_synonym ledger = "PublicationRecord list"

datatype SelectionResult = NoEligibleItem | Selected CandidateItem

text \<open>
  Modelled from the spec: \<open>contains(identity)\<close> of the Publication Ledger (section 4.3),
  whose implementation in \<open>select_daily.py\<close> is missing.
\<close>

definition contains :: "string \<Rightarrow> ledger \<Rightarrow> bool" where
  "contains i L = (i \<in> set (map rec_identity L))"

text \<open>
  Modelled from the spec: \<open>markPublished(identity, category, date)\<close> (section 4.3), whose
  implementation (\<open>select_daily.py --mark-published\<close>) is missing. A second call for an
  identity that has a record is detected by the existing record and appends nothing.
  A store that cannot be written is the non-zero exit status of the program in the
  driver below.
\<close>

definition markPublished :: "string \<Rightarrow> string \<Rightarrow> string \<Rightarrow> ledger \<Rightarrow> ledger" where
  "markPublished i c d L =
     (if contains i L then L
      else L @ [\<lparr> rec_identity = i, rec_category = c, publishedAt = d \<rparr>])"

text \<open>
  Modelled from the spec: \<open>mostRecentCategory()\<close> (section 4.3), missing with
  \<open>select_daily.py\<close>: the category of the record with the latest \<open>publishedAt\<close>; among
  records of one date the one appended last.
\<close>

fun mostRecent :: "PublicationRecord option \<Rightarrow> ledger \<Rightarrow> PublicationRecord option" where
  "mostRecent best [] = best"
| "mostRecent None (r # rs) = mostRecent (Some r) rs"
| "mostRecent (Some b) (r # rs) =
     mostRecent (if publishedAt b \<le> publishedAt r then Some r else Some b) rs"

definition mostRecentCategory :: "ledger \<Rightarrow> string option" where
  "mostRecentCategory L = map_option rec_category (mostRecent None L)"

text \<open>
  Modelled from the spec: the eligibility filter of section 4.2. The content-type
  classification is "a semantic filter, not a hard-coded list", so it is the parameter
  \<open>is_skill\<close>.
\<close>

definition eligible :: "(CandidateItem \<Rightarrow> bool) \<Rightarrow> ledger \<Rightarrow> CandidateItem \<Rightarrow> bool" where
  "eligible is_skill L i = (\<not> contains (identity i) L \<and> is_skill i)"

text \<open>
  Modelled from the spec: the ranking of section 4.2, as a key that is smaller for the
  item that ranks higher, compared lexicographically: authority tier (official first),
  freshness (a known \<open>lastUpdatedAt\<close> before an unknown one, a later one before an
  earlier one), category diversity (a category other than the most recently published
  one first), and \<open>identity\<close> in lexicographic order.
\<close>

definition authority_key :: "CandidateItem \<Rightarrow> nat" where
  "authority_key i = (if official i then 0 else 1)"

definition freshness_key :: "CandidateItem \<Rightarrow> nat \<times> int" where
  "freshness_key i = (case lastUpdatedAt i of Some t \<Rightarrow> (0, - int t) | None \<Rightarrow> (1, 0))"

definition diversity_key :: "string option \<Rightarrow> CandidateItem \<Rightarrow> nat" where
  "diversity_key prev i = (if prev = Some (category i) then 1 else 0)"

definition rank_key :: "string option \<Rightarrow> CandidateItem \<Rightarrow> nat \<times> (nat \<times> int) \<times> nat \<times> string" where
  "rank_key prev i = (authority_key i, freshness_key i, diversity_key prev i, identity i)"

text \<open>
  Modelled from the spec: \<open>selectForDate(date, catalog, ledger)\<close> (section 4.2), the
  missing core of \<open>select_daily.py\<close>: the eligible item that ranks highest, or the
  explicit outcome that there is none.
\<close>

definition selectForDate ::
  "(CandidateItem \<Rightarrow> bool) \<Rightarrow> string \<Rightarrow> catalog \<Rightarrow> ledger \<Rightarrow> SelectionResult" where
  "selectForDate is_skill date cat L =
     (case filter (eligible is_skill L) cat of
        [] \<Rightarrow> NoEligibleItem
      | c # cs \<Rightarrow> Selected (arg_min_list (rank_key (mostRecentCategory L)) (c # cs)))"

text \<open>The ledger that a sequence of \<open>markPublished\<close> calls builds from the empty one.\<close>

fun ledger_after :: "(string \<times> string \<times> string) list \<Rightarrow> ledger \<Rightarrow> ledger" where
  "ledger_after [] L = L"
| "ledger_after ((i, c, d) # calls) L = ledger_after calls (markPublished i c d L)"

section \<open>The pipeline driver (scripts/daily-skill-digest.sh)\<close>

text \<open>
  The script runs under \<open>set -e\<close> without \<open>pipefail\<close>. The programs it calls are not among
  the sources, so what they do in one run is the parameter \<open>collab\<close>: each program is a
  function from the persisted state it reads to its exit status (or its output) and the
  state it leaves. The persisted state is the \<open>world\<close>: the catalog snapshot
  \<open>data/skill_cache.json\<close> (\<open>None\<close> when the file is missing or unreadable), the ledger
  \<open>data/published_skills.json\<close> and the files of the output directory.

  Assumed throughout: the directories and the log file can be written (otherwise
  \<open>mkdir\<close> or the first \<open>log\<close> call ends the run under \<open>set -e\<close>), so every
  \<open>tee -a "$LOG_FILE"\<close> has exit status 0. The log holds the messages of \<open>log\<close>,
  without their time stamps. Strings are byte strings, and the bracket expression of the
  last \<open>sed\<close> is read over bytes, with ASCII ranges: what \<open>sed\<close> does in the C locale, and
  in a UTF-8 locale on text that is valid UTF-8.
\<close>

datatype stage = Fetching | Selecting | Generating | Publishing | MarkingPublished

datatype outcome = Done | Failed stage

datatype event =
    FetchSkills
  | SelectDaily
  | GenerateArticle string
  | MarkPublishedCall
  | PublishCall string string string string

record world =
  skill_cache :: "catalog option"
  published_skills :: ledger
  output_files :: "string list"

record collab =
  HOME :: string
  today :: string
  SANGENG_API_KEY :: string
  wechat_publish_dir :: bool
  publish_script :: bool
  fetch_skills :: "catalog option \<Rightarrow> nat \<times> catalog option"
  select_daily :: "catalog option \<Rightarrow> ledger \<Rightarrow> string list"
  json_name :: "string list \<Rightarrow> string option"
  generate_article :: "string \<Rightarrow> string list \<Rightarrow> nat \<times> string list"
  mark_published :: "catalog option \<Rightarrow> ledger \<Rightarrow> nat \<times> ledger"
  publish :: "string \<Rightarrow> string \<Rightarrow> string \<Rightarrow> string \<Rightarrow> nat"

record run_state =
  st_world :: world
  st_events :: "event list"
  st_log :: "string list"
  st_selected :: "string list"

record run_result =
  outcome :: outcome
  exit_status :: nat
  events :: "event list"
  logged :: "string list"
  selected :: "string list"
  final :: world

definition log :: "string \<Rightarrow> run_state \<Rightarrow> run_state" where
  "log m s = s\<lparr> st_log := st_log s @ [m] \<rparr>"

definition call :: "event \<Rightarrow> run_state \<Rightarrow> run_state" where
  "call e s = s\<lparr> st_events := st_events s @ [e] \<rparr>"

definition exit_with :: "outcome \<Rightarrow> nat \<Rightarrow> run_state \<Rightarrow> run_result" where
  "exit_with oc n s =
     \<lparr> outcome = oc, exit_status = n, events = st_events s, logged = st_log s,
       selected = st_selected s, final = st_world s \<rparr>"

text \<open>The exit status of \<open>cmd | tee -a "$LOG_FILE"\<close>: that of \<open>tee\<close>, the last command.\<close>

definition tee_status :: nat where
  "tee_status = 0"

definition pipe_status :: "nat \<Rightarrow> nat \<Rightarrow> nat" where
  "pipe_status first_status last_status = last_status"

definition banner :: string where
  "banner = ''==========================================''"

function show_nat :: "nat \<Rightarrow> string" where
  "show_nat n =
     (if n < 10 then [''0123456789'' ! n]
      else show_nat (n div 10) @ [''0123456789'' ! (n mod 10)])"
  by pat_completeness auto
termination
  by (relation "measure (\<lambda>n. n)") auto

declare show_nat.simps [simp del]

text \<open>
  \<open>len(d.get('skills', []))\<close> of the cache file, and 0 when the file cannot be read.
\<close>

definition SKILL_COUNT :: "catalog option \<Rightarrow> nat" where
  "SKILL_COUNT c = (case c of None \<Rightarrow> 0 | Some skills \<Rightarrow> length skills)"

definition starts_with :: "char \<Rightarrow> string \<Rightarrow> bool" where
  "starts_with c l = (case l of [] \<Rightarrow> False | x # _ \<Rightarrow> x = c)"

text \<open>
  \<open>sed -n '/^{/,/^}/p'\<close> over the lines of the selector's output; the flag says whether
  a range is open. The line that opens a range is not tested for closing it.
\<close>

fun sed_range :: "bool \<Rightarrow> string list \<Rightarrow> string list" where
  "sed_range inside [] = []"
| "sed_range False (l # ls) =
     (if starts_with (CHR ''{'') l then l # sed_range True ls else sed_range False ls)"
| "sed_range True (l # ls) = l # sed_range (\<not> starts_with (CHR ''}'') l) ls"

text \<open>
  A command substitution \<open>$(...)\<close> drops the newlines at the end of what the command
  printed.
\<close>

definition NL :: char where
  "NL = CHR 0x0A"

definition strip_trailing_newlines :: "string \<Rightarrow> string" where
  "strip_trailing_newlines out = rev (dropWhile (\<lambda>c. c = NL) (rev out))"

text \<open>
  \<open>SKILL_NAME=$(echo "$SELECTED" | python3 -c "..." 2>/dev/null || echo "Unknown")\<close>.
  \<open>json_name\<close> is the text that the Python one-liner prints for
  \<open>d.get('name','Unknown')\<close> of the JSON object \<open>SELECTED\<close>, and \<open>None\<close> when it fails;
  \<open>print\<close> and \<open>echo\<close> end their output with a newline.
\<close>

definition read_skill_name :: "collab \<Rightarrow> string list \<Rightarrow> string" where
  "read_skill_name X SELECTED =
     strip_trailing_newlines
       (case json_name X SELECTED of None \<Rightarrow> ''Unknown'' @ [NL] | Some text \<Rightarrow> text @ [NL])"

text \<open>
  \<open>echo "$SKILL_NAME"\<close> with the \<open>echo\<close> of bash: an argument that is a dash followed by
  one or more of the letters \<open>n\<close>, \<open>e\<close>, \<open>E\<close> is taken as options and not printed (and
  with \<open>n\<close> among them no newline is printed either); any other argument is printed as
  it is, followed by a newline.
\<close>

definition echo_option :: "string \<Rightarrow> bool" where
  "echo_option arg =
     (case arg of
        [] \<Rightarrow> False
      | c # cs \<Rightarrow> c = CHR ''-'' \<and> cs \<noteq> [] \<and>
                 list_all (\<lambda>x. x = CHR ''n'' \<or> x = CHR ''e'' \<or> x = CHR ''E'') cs)"

definition bash_echo :: "string \<Rightarrow> string" where
  "bash_echo arg =
     (if echo_option arg then (if CHR ''n'' \<in> set arg then [] else [NL]) else arg @ [NL])"

text \<open>
  \<open>SAFE_SKILL_NAME=$(echo "$SKILL_NAME" | sed 's/ /-/g' | sed 's/\//-/g' |
  sed 's/[^a-zA-Z0-9_-]//g')\<close>. Each \<open>sed\<close> works line by line, so the newlines stay.
\<close>

definition sed_s :: "char \<Rightarrow> char \<Rightarrow> string \<Rightarrow> string" where
  "sed_s c r l = map (\<lambda>x. if x = c then r else x) l"

definition safe_char :: "char \<Rightarrow> bool" where
  "safe_char c =
     ((CHR ''a'' \<le> c \<and> c \<le> CHR ''z'') \<or> (CHR ''A'' \<le> c \<and> c \<le> CHR ''Z'') \<or>
      (CHR ''0'' \<le> c \<and> c \<le> CHR ''9'') \<or> c = CHR ''_'' \<or> c = CHR ''-'')"

definition sed_delete_unsafe :: "string \<Rightarrow> string" where
  "sed_delete_unsafe out = filter (\<lambda>c. safe_char c \<or> c = NL) out"

definition SAFE_SKILL_NAME :: "string \<Rightarrow> string" where
  "SAFE_SKILL_NAME SKILL_NAME =
     strip_trailing_newlines
       (sed_delete_unsafe
          (sed_s (CHR ''/'') (CHR ''-'') (sed_s (CHR '' '') (CHR ''-'') (bash_echo SKILL_NAME))))"

definition OUTPUT_DIR :: "collab \<Rightarrow> string" where
  "OUTPUT_DIR X = HOME X @ ''/Documents/Obsidian/ai'' @ [CHR 0xE8, CHR 0x87, CHR 0xAA, CHR 0xE5, CHR 0x8A, CHR 0xA8, CHR 0xE7, CHR 0x94, CHR 0x9F, CHR 0xE6, CHR 0x88, CHR 0x90] @ ''/skill-digest''"

definition ARTICLE_FILE :: "collab \<Rightarrow> string \<Rightarrow> string" where
  "ARTICLE_FILE X SKILL_NAME =
     OUTPUT_DIR X @ ''/'' @ today X @ ''-'' @ SAFE_SKILL_NAME SKILL_NAME @ ''.md''"

definition WECHAT_APPID :: string where
  "WECHAT_APPID = ''wx5c5f1c55d02d1354''"

definition PUBLISH_SCRIPT :: "collab \<Rightarrow> string" where
  "PUBLISH_SCRIPT X = HOME X @ ''/.claude/skills/wechat-publish'' @ ''/scripts/publish.py''"

definition publish_title :: "string \<Rightarrow> string" where
  "publish_title SKILL_NAME = ([CHR 0xE6, CHR 0xAF, CHR 0x8F, CHR 0xE6, CHR 0x97, CHR 0xA5] @ ''Skill'' @ [CHR 0xE7, CHR 0xB2, CHR 0xBE, CHR 0xE9, CHR 0x80, CHR 0x89, CHR 0xEF, CHR 0xBC, CHR 0x9A]) @ SKILL_NAME"

definition publish_author :: string where
  "publish_author = [CHR 0xE4, CHR 0xB8, CHR 0x89, CHR 0xE6, CHR 0x9B, CHR 0xB4] @ ''AI''"

text \<open>
  Step 5. The exit status of \<open>publish.py\<close> is that of the first command of a pipeline, so
  the warning after \<open>||\<close> depends on \<open>tee\<close> alone.
\<close>

definition step5 :: "collab \<Rightarrow> string \<Rightarrow> run_state \<Rightarrow> run_result" where
  "step5 X SKILL_NAME s0 =
     (let s1 = log ''Step 5: Publishing to WeChat...'' s0;
          s2 =
            (if wechat_publish_dir X then
               (if publish_script X then
                  (let s = log ''Found wechat-publish skill, attempting to publish...'' s1 in
                   if SANGENG_API_KEY X = [] then
                     log ''Warning: SANGENG_API_KEY not set, skipping WeChat publish'' s
                   else
                     (let t = publish_title SKILL_NAME;
                          f = ARTICLE_FILE X SKILL_NAME;
                          s' = call (PublishCall WECHAT_APPID t f publish_author) s
                      in if pipe_status (publish X WECHAT_APPID t f publish_author) tee_status \<noteq> 0
                         then log ''Warning: WeChat publish failed, article saved locally'' s'
                         else s'))
                else log (''Warning: wechat-publish script not found at '' @ PUBLISH_SCRIPT X) s1)
             else
               log ''To enable auto-publish, install the wechat-publish skill''
                 (log ''Note: wechat-publish skill not installed, skipping WeChat publish'' s1));
          s3 = log [] (log (''Skill: '' @ SKILL_NAME) (log (''Article: '' @ ARTICLE_FILE X SKILL_NAME)
                 (log banner (log ''Daily Skill Digest completed successfully'' (log banner s2)))))
      in exit_with Done 0 s3)"

text \<open>
  Step 4. \<open>select_daily.py --mark-published\<close> is a simple command: a non-zero exit status
  ends the script with that status.
\<close>

definition step4 :: "collab \<Rightarrow> string \<Rightarrow> run_state \<Rightarrow> run_result" where
  "step4 X SKILL_NAME s0 =
     (let s1 = call MarkPublishedCall (log ''Step 4: Marking skill as published...'' s0);
          w = st_world s1;
          (st, L) = mark_published X (skill_cache w) (published_skills w);
          s2 = s1\<lparr> st_world := w\<lparr> published_skills := L \<rparr> \<rparr>
      in if st \<noteq> 0 then exit_with (Failed MarkingPublished) st s2
         else step5 X SKILL_NAME s2)"

text \<open>
  Step 3. The generator runs in a pipeline into \<open>tee\<close>, so its own exit status is not
  seen; the script tests whether the article file exists.
\<close>

definition step3 :: "collab \<Rightarrow> string \<Rightarrow> run_state \<Rightarrow> run_result" where
  "step3 X SKILL_NAME s0 =
     (let f = ARTICLE_FILE X SKILL_NAME;
          s1 = call (GenerateArticle f) (log ''Step 3: Generating article...'' s0);
          w = st_world s1;
          (st, files) = generate_article X f (output_files w);
          s2 = s1\<lparr> st_world := w\<lparr> output_files := files \<rparr> \<rparr>
      in if pipe_status st tee_status \<noteq> 0 then
           exit_with (Failed Generating) (pipe_status st tee_status) s2
         else if f \<notin> set files then
           exit_with (Failed Generating) 1 (log ''Error: Failed to generate article'' s2)
         else step4 X SKILL_NAME (log (''Article saved to: '' @ f) s2))"

text \<open>
  Step 2. A run without a JSON object in the selector's output, or without a usable name
  in it, ends here.
\<close>

definition step2 :: "collab \<Rightarrow> run_state \<Rightarrow> run_result" where
  "step2 X s0 =
     (let s1 = call SelectDaily (log ''Step 2: Selecting today's skill...'' s0);
          w = st_world s1;
          TEMP_JSON = select_daily X (skill_cache w) (published_skills w);
          SELECTED = sed_range False TEMP_JSON
      in if SELECTED = [] then
           exit_with (Failed Selecting) 1 (log ''Error: Failed to select skill'' s1)
         else
           (let SKILL_NAME = read_skill_name X SELECTED;
                s2 = s1\<lparr> st_selected := SELECTED \<rparr>
            in if SKILL_NAME = ''Unknown'' \<or> SKILL_NAME = [] then
                 exit_with (Failed Selecting) 1 (log ''Error: Could not parse skill name'' s2)
               else step3 X SKILL_NAME (log (''Selected skill: '' @ SKILL_NAME) s2)))"

text \<open>
  Step 1. A failed refresh is only logged; the run ends here when the cache file holds
  no skill.
\<close>

definition step1 :: "collab \<Rightarrow> run_state \<Rightarrow> run_result" where
  "step1 X s0 =
     (let s1 = call FetchSkills (log ''Step 1: Fetching skills from sources...'' s0);
          w = st_world s1;
          (st, cache) = fetch_skills X (skill_cache w);
          s2 = s1\<lparr> st_world := w\<lparr> skill_cache := cache \<rparr> \<rparr>;
          s3 = (if st \<noteq> 0 then log ''Warning: Failed to refresh skills, using cached data'' s2
                else s2);
          s4 = log (''Available skills: '' @ show_nat (SKILL_COUNT cache)) s3
      in if SKILL_COUNT cache = 0 then
           exit_with (Failed Fetching) 1 (log ''Error: No skills available. Exiting.'' s4)
         else step2 X s4)"

definition daily_skill_digest :: "collab \<Rightarrow> world \<Rightarrow> run_result" where
  "daily_skill_digest X w =
     step1 X
       (log banner (log ''Starting Daily Skill Digest'' (log banner
          \<lparr> st_world = w, st_events = [], st_log = [], st_selected = [] \<rparr>)))"

section \<open>The pipeline with the selector and the ledger of the spec\<close>

text \<open>
  Modelled from the spec: what the missing \<open>select_daily.py\<close> prints and what its
  \<open>--mark-published\<close> mode does, in terms of \<open>selectForDate\<close> and \<open>markPublished\<close>. A
  selected item is printed as a JSON object that starts on a line of its own; when no
  item is eligible, a bracketed log line is printed and no object. The exit status of
  \<open>--mark-published\<close> is 1 when there is no selection to mark.
\<close>

definition print_item :: "CandidateItem \<Rightarrow> string list" where
  "print_item i = [''{'', ''  '' @ dq @ ''name'' @ dq @ '': '' @ dq @ name i @ dq, ''}'']"

definition print_selection :: "SelectionResult \<Rightarrow> string list" where
  "print_selection r =
     (case r of
        NoEligibleItem \<Rightarrow> [''[select] no eligible item'']
      | Selected i \<Rightarrow> ''[select] selected'' # print_item i)"

definition spec_select_daily ::
  "(CandidateItem \<Rightarrow> bool) \<Rightarrow> string \<Rightarrow> catalog option \<Rightarrow> ledger \<Rightarrow> string list" where
  "spec_select_daily is_skill d cache L =
     (case cache of
        None \<Rightarrow> [''[select] no catalog'']
      | Some cat \<Rightarrow> print_selection (selectForDate is_skill d cat L))"

definition spec_mark_published ::
  "(CandidateItem \<Rightarrow> bool) \<Rightarrow> string \<Rightarrow> catalog option \<Rightarrow> ledger \<Rightarrow> nat \<times> ledger" where
  "spec_mark_published is_skill d cache L =
     (case cache of
        None \<Rightarrow> (1, L)
      | Some cat \<Rightarrow>
          (case selectForDate is_skill d cat L of
             NoEligibleItem \<Rightarrow> (1, L)
           | Selected i \<Rightarrow> (0, markPublished (identity i) (category i) d L)))"

text \<open>
  The name that the JSON one-liner of step 2 reads from an object printed by
  \<open>print_item\<close>.
\<close>

definition printed_name :: "string list \<Rightarrow> string option" where
  "printed_name SELECTED =
     (case SELECTED of
        [opening, l, closing] \<Rightarrow>
          (if take 11 l = ''  '' @ dq @ ''name'' @ dq @ '': '' @ dq \<and> drop (length l - 1) l = dq
           then Some (take (length l - 12) (drop 11 l)) else None)
      | _ \<Rightarrow> None)"

text \<open>
  The scenario of spec section 8: items A and B in category tools, C in category docs,
  and a classification that rejects documentation.
\<close>

definition not_docs :: "CandidateItem \<Rightarrow> bool" where
  "not_docs i = (category i \<noteq> ''docs'' \<and> category i \<noteq> ''tutorial'' \<and> category i \<noteq> ''blog'')"

definition item_A :: CandidateItem where
  "item_A = \<lparr> identity = ''https://github.com/x/A'', name = ''A'', category = ''tools'',
              sourceUrl = ''https://github.com/x/A'', lastUpdatedAt = Some 10, official = False \<rparr>"

definition item_B :: CandidateItem where
  "item_B = \<lparr> identity = ''https://github.com/x/B'', name = ''B'', category = ''tools'',
              sourceUrl = ''https://github.com/x/B'', lastUpdatedAt = Some 12, official = False \<rparr>"

definition item_C :: CandidateItem where
  "item_C = \<lparr> identity = ''https://github.com/x/C'', name = ''C'', category = ''docs'',
              sourceUrl = ''https://github.com/x/C'', lastUpdatedAt = None, official = False \<rparr>"

text \<open>
  One run on 2024-01-13: the refresh succeeds and leaves the catalog as it is, the
  generator writes the article file, marking succeeds, and \<open>publish.py\<close> exits with
  status 1.
\<close>

definition run_13 :: collab where
  "run_13 =
     \<lparr> HOME = ''/home/u'', today = ''2024-01-13'', SANGENG_API_KEY = ''key'',
       wechat_publish_dir = True, publish_script = True,
       fetch_skills = (\<lambda>c. (0, c)),
       select_daily = spec_select_daily not_docs ''2024-01-13'',
       json_name = printed_name,
       generate_article = (\<lambda>f files. (0, f # files)),
       mark_published = spec_mark_published not_docs ''2024-01-13'',
       publish = (\<lambda>appid title file author. 1) \<rparr>"

definition world_0 :: world where
  "world_0 = \<lparr> skill_cache = Some [item_A, item_B, item_C], published_skills = [],
               output_files = [] \<rparr>"

text \<open>The same catalog when A and B have been published.\<close>

definition world_AB :: world where
  "world_AB =
     \<lparr> skill_cache = Some [item_A, item_B, item_C],
       published_skills =
         [\<lparr> rec_identity = ''https://github.com/x/B'', rec_category = ''tools'', publishedAt = ''2024-01-11'' \<rparr>,
          \<lparr> rec_identity = ''https://github.com/x/A'', rec_category = ''tools'', publishedAt = ''2024-01-12'' \<rparr>],
       output_files = [] \<rparr>"

section \<open>The driver, step by step\<close>

text \<open>
  Each step either ends the run or hands a state to the next step. The lemmas say which,
  and how the state handed on differs from the state received.
\<close>

lemmas state_defs = log_def call_def pipe_status_def tee_status_def

lemma step5_ends:
  "\<exists>s'. step5 X n s = exit_with Done 0 s' \<and> st_world s' = st_world s \<and>
        st_selected s' = st_selected s \<and> set (st_log s) \<subseteq> set (st_log s') \<and>
        st_events s' = st_events s @
          (if wechat_publish_dir X \<and> publish_script X \<and> SANGENG_API_KEY X \<noteq> []
           then [PublishCall WECHAT_APPID (publish_title n) (ARTICLE_FILE X n) publish_author]
           else [])"
  unfolding step5_def Let_def
  apply (intro exI conjI)
      apply (rule refl)
     apply (simp_all add: state_defs)
  apply auto
  done

lemma step4_goes:
  fixes X n s
  defines "m \<equiv> mark_published X (skill_cache (st_world s)) (published_skills (st_world s))"
  shows "\<exists>s'. step4 X n s =
             (if fst m \<noteq> 0 then exit_with (Failed MarkingPublished) (fst m) s' else step5 X n s') \<and>
           st_world s' = (st_world s)\<lparr> published_skills := snd m \<rparr> \<and>
           st_selected s' = st_selected s \<and> set (st_log s) \<subseteq> set (st_log s') \<and>
           st_events s' = st_events s @ [MarkPublishedCall]"
  by (rule exI [where x = "(call MarkPublishedCall (log ''Step 4: Marking skill as published...'' s))
        \<lparr> st_world := (st_world s)\<lparr> published_skills := snd m \<rparr> \<rparr>"])
     (auto simp: step4_def Let_def m_def case_prod_beta state_defs)

lemma step3_goes:
  fixes X n s
  defines "g \<equiv> generate_article X (ARTICLE_FILE X n) (output_files (st_world s))"
  shows "\<exists>s'. step3 X n s =
             (if ARTICLE_FILE X n \<notin> set (snd g) then exit_with (Failed Generating) 1 s'
              else step4 X n s') \<and>
           st_world s' = (st_world s)\<lparr> output_files := snd g \<rparr> \<and>
           st_selected s' = st_selected s \<and> set (st_log s) \<subseteq> set (st_log s') \<and>
           st_events s' = st_events s @ [GenerateArticle (ARTICLE_FILE X n)]"
proof -
  let ?s2 = "(call (GenerateArticle (ARTICLE_FILE X n)) (log ''Step 3: Generating article...'' s))
        \<lparr> st_world := (st_world s)\<lparr> output_files := snd g \<rparr> \<rparr>"
  show ?thesis
  proof (cases "ARTICLE_FILE X n \<in> set (snd g)")
    case True
    then show ?thesis
      by (intro exI [where x = "log (''Article saved to: '' @ ARTICLE_FILE X n) ?s2"])
         (auto simp: step3_def Let_def g_def case_prod_beta state_defs)
  next
    case False
    then show ?thesis
      by (intro exI [where x = "log ''Error: Failed to generate article'' ?s2"])
         (auto simp: step3_def Let_def g_def case_prod_beta state_defs)
  qed
qed

lemma step2_goes:
  fixes X s
  defines "SEL \<equiv> sed_range False (select_daily X (skill_cache (st_world s)) (published_skills (st_world s)))"
  defines "n \<equiv> read_skill_name X SEL"
  shows "\<exists>s'. step2 X s =
             (if SEL = [] \<or> n = ''Unknown'' \<or> n = [] then exit_with (Failed Selecting) 1 s'
              else step3 X n s') \<and>
           st_world s' = st_world s \<and>
           st_selected s' = (if SEL = [] then st_selected s else SEL) \<and>
           set (st_log s) \<subseteq> set (st_log s') \<and>
           st_events s' = st_events s @ [SelectDaily]"
proof -
  let ?s1 = "call SelectDaily (log ''Step 2: Selecting today's skill...'' s)"
  let ?s2 = "?s1\<lparr> st_selected := SEL \<rparr>"
  consider (none) "SEL = []" | (bad) "SEL \<noteq> []" "n = ''Unknown'' \<or> n = []"
    | (named) "SEL \<noteq> []" "n \<noteq> ''Unknown''" "n \<noteq> []"
    by blast
  then show ?thesis
  proof cases
    case none
    then show ?thesis
      by (intro exI [where x = "log ''Error: Failed to select skill'' ?s1"])
         (auto simp: step2_def Let_def SEL_def state_defs)
  next
    case bad
    then show ?thesis
      by (intro exI [where x = "log ''Error: Could not parse skill name'' ?s2"])
         (auto simp: step2_def Let_def SEL_def n_def state_defs)
  next
    case named
    then show ?thesis
      by (intro exI [where x = "log (''Selected skill: '' @ n) ?s2"])
         (auto simp: step2_def Let_def SEL_def n_def state_defs)
  qed
qed

lemma step1_goes:
  fixes X s
  defines "fr \<equiv> fetch_skills X (skill_cache (st_world s))"
  shows "\<exists>s'. step1 X s =
             (if SKILL_COUNT (snd fr) = 0 then exit_with (Failed Fetching) 1 s' else step2 X s') \<and>
           st_world s' = (st_world s)\<lparr> skill_cache := snd fr \<rparr> \<and>
           st_selected s' = st_selected s \<and> set (st_log s) \<subseteq> set (st_log s') \<and>
           (fst fr \<noteq> 0 \<longrightarrow>
              ''Warning: Failed to refresh skills, using cached data'' \<in> set (st_log s')) \<and>
           st_events s' = st_events s @ [FetchSkills]"
proof -
  let ?s2 = "(call FetchSkills (log ''Step 1: Fetching skills from sources...'' s))
        \<lparr> st_world := (st_world s)\<lparr> skill_cache := snd fr \<rparr> \<rparr>"
  let ?s3 = "if fst fr \<noteq> 0 then log ''Warning: Failed to refresh skills, using cached data'' ?s2
             else ?s2"
  let ?s4 = "log (''Available skills: '' @ show_nat (SKILL_COUNT (snd fr))) ?s3"
  show ?thesis
  proof (cases "SKILL_COUNT (snd fr) = 0")
    case True
    then show ?thesis
      by (intro exI [where x = "log ''Error: No skills available. Exiting.'' ?s4"])
         (auto simp: step1_def Let_def fr_def case_prod_beta state_defs)
  next
    case False
    then show ?thesis
      by (intro exI [where x = "?s4"])
         (auto simp: step1_def Let_def fr_def case_prod_beta state_defs)
  qed
qed

lemma exit_with_fields [simp]:
  "outcome (exit_with oc k s) = oc"
  "exit_status (exit_with oc k s) = k"
  "events (exit_with oc k s) = st_events s"
  "logged (exit_with oc k s) = st_log s"
  "selected (exit_with oc k s) = st_selected s"
  "final (exit_with oc k s) = st_world s"
  by (simp_all add: exit_with_def)

lemma step5_log: "set (st_log s) \<subseteq> set (logged (step5 X n s))"
proof -
  obtain s' where "step5 X n s = exit_with Done 0 s'" "set (st_log s) \<subseteq> set (st_log s')"
    using step5_ends [of X n s] by blast
  then show ?thesis by simp
qed

lemma step4_log: "set (st_log s) \<subseteq> set (logged (step4 X n s))"
proof -
  obtain s' where
    "step4 X n s = exit_with (Failed MarkingPublished)
        (fst (mark_published X (skill_cache (st_world s)) (published_skills (st_world s)))) s'
     \<or> step4 X n s = step5 X n s'"
    "set (st_log s) \<subseteq> set (st_log s')"
    using step4_goes [of X n s] by (auto split: if_splits)
  then show ?thesis using step5_log [of s' X n] by auto
qed

lemma step3_log: "set (st_log s) \<subseteq> set (logged (step3 X n s))"
proof -
  obtain s' where
    "step3 X n s = exit_with (Failed Generating) 1 s' \<or> step3 X n s = step4 X n s'"
    "set (st_log s) \<subseteq> set (st_log s')"
    using step3_goes [of X n s] by (auto split: if_splits)
  then show ?thesis using step4_log [of s' X n] by auto
qed

lemma step2_log: "set (st_log s) \<subseteq> set (logged (step2 X s))"
proof -
  obtain s' n where
    "step2 X s = exit_with (Failed Selecting) 1 s' \<or> step2 X s = step3 X n s'"
    "set (st_log s) \<subseteq> set (st_log s')"
    using step2_goes [of X s] by (auto split: if_splits)
  then show ?thesis using step3_log [of s' X n] by auto
qed

lemma fetch_warning_logged:
  assumes "fst (fetch_skills X (skill_cache w)) \<noteq> 0"
  shows "''Warning: Failed to refresh skills, using cached data''
           \<in> set (logged (daily_skill_digest X w))"
proof -
  let ?s0 = "log banner (log ''Starting Daily Skill Digest'' (log banner
          \<lparr> st_world = w, st_events = [], st_log = [], st_selected = [] \<rparr>))"
  have w0: "st_world ?s0 = w" by (simp add: log_def)
  obtain s' where
    s': "step1 X ?s0 = exit_with (Failed Fetching) 1 s' \<or> step1 X ?s0 = step2 X s'"
      "''Warning: Failed to refresh skills, using cached data'' \<in> set (st_log s')"
    using step1_goes [of X ?s0] assms unfolding w0 by (auto split: if_splits)
  then show ?thesis
    using step2_log [of s' X] unfolding daily_skill_digest_def by auto
qed

text \<open>The five ways a run can end, in terms of what the collaborators did.\<close>

lemma run_cases [case_names no_skills no_selection no_article not_marked completed]:
  fixes X w
  defines "r \<equiv> daily_skill_digest X w"
  defines "cache \<equiv> snd (fetch_skills X (skill_cache w))"
  defines "SEL \<equiv> sed_range False (select_daily X cache (published_skills w))"
  defines "n \<equiv> read_skill_name X SEL"
  defines "f \<equiv> ARTICLE_FILE X n"
  defines "files \<equiv> snd (generate_article X f (output_files w))"
  defines "m \<equiv> mark_published X cache (published_skills w)"
  assumes no_skills:
    "\<lbrakk>SKILL_COUNT cache = 0; outcome r = Failed Fetching; exit_status r = 1;
      events r = [FetchSkills]; selected r = []; final r = w\<lparr> skill_cache := cache \<rparr>\<rbrakk> \<Longrightarrow> thesis"
  assumes no_selection:
    "\<lbrakk>SKILL_COUNT cache \<noteq> 0; SEL = [] \<or> n = ''Unknown'' \<or> n = [];
      outcome r = Failed Selecting; exit_status r = 1;
      events r = [FetchSkills, SelectDaily]; selected r = SEL;
      final r = w\<lparr> skill_cache := cache \<rparr>\<rbrakk> \<Longrightarrow> thesis"
  assumes no_article:
    "\<lbrakk>SKILL_COUNT cache \<noteq> 0; SEL \<noteq> []; n \<noteq> ''Unknown''; n \<noteq> []; f \<notin> set files;
      outcome r = Failed Generating; exit_status r = 1;
      events r = [FetchSkills, SelectDaily, GenerateArticle f]; selected r = SEL;
      final r = w\<lparr> skill_cache := cache, output_files := files \<rparr>\<rbrakk> \<Longrightarrow> thesis"
  assumes not_marked:
    "\<lbrakk>SKILL_COUNT cache \<noteq> 0; SEL \<noteq> []; n \<noteq> ''Unknown''; n \<noteq> []; f \<in> set files;
      fst m \<noteq> 0; outcome r = Failed MarkingPublished; exit_status r = fst m;
      events r = [FetchSkills, SelectDaily, GenerateArticle f, MarkPublishedCall];
      selected r = SEL;
      final r = w\<lparr> skill_cache := cache, output_files := files, published_skills := snd m \<rparr>\<rbrakk>
     \<Longrightarrow> thesis"
  assumes completed:
    "\<lbrakk>SKILL_COUNT cache \<noteq> 0; SEL \<noteq> []; n \<noteq> ''Unknown''; n \<noteq> []; f \<in> set files;
      fst m = 0; outcome r = Done; exit_status r = 0;
      events r = [FetchSkills, SelectDaily, GenerateArticle f, MarkPublishedCall] @
        (if wechat_publish_dir X \<and> publish_script X \<and> SANGENG_API_KEY X \<noteq> []
         then [PublishCall WECHAT_APPID (publish_title n) f publish_author] else []);
      selected r = SEL;
      final r = w\<lparr> skill_cache := cache, output_files := files, published_skills := snd m \<rparr>\<rbrakk>
     \<Longrightarrow> thesis"
  shows thesis
proof -
  let ?s0 = "log banner (log ''Starting Daily Skill Digest'' (log banner
          \<lparr> st_world = w, st_events = [], st_log = [], st_selected = [] \<rparr>))"
  have s0: "st_world ?s0 = w" "st_events ?s0 = []" "st_selected ?s0 = []"
    by (simp_all add: log_def)
  have r: "r = step1 X ?s0" by (simp add: r_def daily_skill_digest_def)
  obtain s1 where s1:
    "step1 X ?s0 = (if SKILL_COUNT cache = 0 then exit_with (Failed Fetching) 1 s1 else step2 X s1)"
    "st_world s1 = w\<lparr> skill_cache := cache \<rparr>" "st_selected s1 = []" "st_events s1 = [FetchSkills]"
    using step1_goes [of X ?s0] unfolding s0 cache_def by auto
  show thesis
  proof (cases "SKILL_COUNT cache = 0")
    case True
    with r s1 show thesis by (intro no_skills) simp_all
  next
    case skills: False
    have w1: "skill_cache (st_world s1) = cache" "published_skills (st_world s1) = published_skills w"
      "output_files (st_world s1) = output_files w"
      by (simp_all add: s1)
    obtain s2 where s2:
      "step2 X s1 = (if SEL = [] \<or> n = ''Unknown'' \<or> n = [] then exit_with (Failed Selecting) 1 s2
                     else step3 X n s2)"
      "st_world s2 = st_world s1" "st_selected s2 = SEL"
      "st_events s2 = [FetchSkills, SelectDaily]"
      using step2_goes [of X s1] unfolding w1 n_def SEL_def unfolding s1
      by (cases "sed_range False (select_daily X cache (published_skills w)) = []") auto
    show thesis
    proof (cases "SEL = [] \<or> n = ''Unknown'' \<or> n = []")
      case True
      with r s1 s2 skills show thesis by (intro no_selection) simp_all
    next
      case named: False
      obtain s3 where s3:
        "step3 X n s2 = (if f \<notin> set files then exit_with (Failed Generating) 1 s3 else step4 X n s3)"
        "st_world s3 = w\<lparr> skill_cache := cache, output_files := files \<rparr>" "st_selected s3 = SEL"
        "st_events s3 = [FetchSkills, SelectDaily, GenerateArticle f]"
        using step3_goes [of X n s2] unfolding s2 unfolding w1 files_def f_def unfolding s1
        by auto
      show thesis
      proof (cases "f \<in> set files")
        case False
        with r s1 s2 s3 skills named show thesis by (intro no_article) simp_all
      next
        case written: True
        have w3: "skill_cache (st_world s3) = cache"
          "published_skills (st_world s3) = published_skills w"
          by (simp_all add: s3)
        obtain s4 where s4:
          "step4 X n s3 = (if fst m \<noteq> 0 then exit_with (Failed MarkingPublished) (fst m) s4
                           else step5 X n s4)"
          "st_world s4 = w\<lparr> skill_cache := cache, output_files := files, published_skills := snd m \<rparr>"
          "st_selected s4 = SEL"
          "st_events s4 = [FetchSkills, SelectDaily, GenerateArticle f, MarkPublishedCall]"
          using step4_goes [of X n s3] unfolding w3 m_def unfolding s3 by auto
        show thesis
        proof (cases "fst m = 0")
          case False
          with r s1 s2 s3 s4 skills named written show thesis by (intro not_marked) simp_all
        next
          case marked: True
          obtain s5 where s5:
            "step5 X n s4 = exit_with Done 0 s5" "st_world s5 = st_world s4"
            "st_selected s5 = st_selected s4"
            "st_events s5 = st_events s4 @
               (if wechat_publish_dir X \<and> publish_script X \<and> SANGENG_API_KEY X \<noteq> []
                then [PublishCall WECHAT_APPID (publish_title n) f publish_author] else [])"
            using step5_ends [of X n s4] unfolding f_def by blast
          from r s1 s2 s3 s4 s5 skills named written marked show thesis
            by (intro completed) simp_all
        qed
      qed
    qed
  qed
qed

section \<open>Properties of the worker\<close>

lemma triggerWorkflow_returns:
  "\<exists>r. fst (triggerWorkflow env net now) = Returned r"
  by (auto simp: triggerWorkflow_def split: prod.splits completion.splits)

text \<open>
  Claim C10. \<open>triggerWorkflow\<close> always returns an object and never throws: its
  \<open>success\<close> field is true exactly when the token is set and GitHub answers the dispatch
  request with status 204, and without a token the result is a failure and no request
  is sent.
\<close>

theorem triggerWorkflow_total:
  "\<exists>r. fst (triggerWorkflow env net now) = Returned r \<and>
       (success r \<longleftrightarrow>
          (\<exists>tok t. GITHUB_TOKEN env = Some tok \<and> tok \<noteq> [] \<and>
                   net (dispatch_request tok) = Responded 204 t)) \<and>
       (falsy (GITHUB_TOKEN env) \<longrightarrow>
          \<not> success r \<and> error r = Some ''GITHUB_TOKEN not configured'' \<and>
          snd (triggerWorkflow env net now) = [])"
proof (cases "GITHUB_TOKEN env")
  case None
  then show ?thesis by (simp add: triggerWorkflow_def falsy_def)
next
  case (Some tok)
  show ?thesis
  proof (cases "tok = []")
    case True
    with Some show ?thesis by (simp add: triggerWorkflow_def falsy_def)
  next
    case False
    with Some show ?thesis
      by (cases "net (dispatch_request tok)")
         (auto simp: triggerWorkflow_def falsy_def try_block_def Let_def
               split: text_outcome.splits)
  qed
qed

theorem triggerWorkflow_total_witness:
  "\<exists>r. fst (triggerWorkflow \<lparr> GITHUB_TOKEN = None \<rparr> (\<lambda>rq. Responded 204 (TextOk [])) ''t'')
         = Returned r \<and> \<not> success r \<and>
       snd (triggerWorkflow \<lparr> GITHUB_TOKEN = None \<rparr> (\<lambda>rq. Responded 204 (TextOk [])) ''t'') = []"
  using triggerWorkflow_total [of "\<lparr> GITHUB_TOKEN = None \<rparr>" "\<lambda>rq. Responded 204 (TextOk [])" "''t''"]
  by (auto simp: falsy_def)

text \<open>
  Claim C9. The cron handler and an HTTP request to \<open>/trigger\<close> do the same thing: both
  run \<open>triggerWorkflow\<close> on the environment, so they send the same requests, each the
  dispatch of event type \<open>daily-skill-digest\<close> to the repository
  \<open>lairulan/skill-digest\<close>, and the result that one logs is the result the other returns.
\<close>

theorem trigger_same_entry_point:
  assumes "url_pathname rq = ''/trigger''"
  shows "sent (fetch rq env net now) = snd (triggerWorkflow env net now) \<and>
         sent (scheduled env net now) = snd (triggerWorkflow env net now) \<and>
         (\<exists>r. console (scheduled env net now) = [r] \<and>
              value_of (fetch rq env net now) =
                Returned \<lparr> body = ResultJson r,
                           headers = [(''Content-Type'', ''application/json'')] \<rparr>) \<and>
         (\<forall>q \<in> set (sent (scheduled env net now)).
            req_url q = ''https://api.github.com/repos/lairulan/skill-digest/dispatches'' \<and>
            req_method q = ''POST'' \<and> req_body q = dispatch_body)"
proof -
  obtain r where r: "fst (triggerWorkflow env net now) = Returned r"
    using triggerWorkflow_returns by blast
  then obtain rqs where t: "triggerWorkflow env net now = (Returned r, rqs)"
    by (cases "triggerWorkflow env net now") auto
  have "rqs = [] \<or> (\<exists>tok. rqs = [dispatch_request tok])"
    using t
    by (auto simp: triggerWorkflow_def try_block_def Let_def
             split: if_splits fetch_outcome.splits text_outcome.splits)
  then show ?thesis
    using assms t by (auto simp: fetch_def scheduled_def dispatch_request_def REPO_def)
qed

theorem trigger_same_entry_point_witness:
  "sent (fetch \<lparr> url_pathname = ''/trigger'' \<rparr> \<lparr> GITHUB_TOKEN = Some ''tok'' \<rparr>
           (\<lambda>q. Responded 204 (TextOk [])) ''t'')
     = [dispatch_request ''tok''] \<and>
   sent (scheduled \<lparr> GITHUB_TOKEN = Some ''tok'' \<rparr> (\<lambda>q. Responded 204 (TextOk [])) ''t'')
     = [dispatch_request ''tok'']"
  using trigger_same_entry_point [of "\<lparr> url_pathname = ''/trigger'' \<rparr>"
      "\<lparr> GITHUB_TOKEN = Some ''tok'' \<rparr>" "\<lambda>q. Responded 204 (TextOk [])" "''t''"]
  by (simp add: triggerWorkflow_def falsy_def try_block_def Let_def)

section \<open>Properties of the selector and the ledger of the spec\<close>

lemma markPublished_contains: "contains i (markPublished i c d L)"
  by (simp add: markPublished_def contains_def)

lemma markPublished_distinct:
  "distinct (map rec_identity L) \<Longrightarrow> distinct (map rec_identity (markPublished i c d L))"
  by (simp add: markPublished_def contains_def)

lemma ledger_after_distinct:
  "distinct (map rec_identity L) \<Longrightarrow> distinct (map rec_identity (ledger_after calls L))"
proof (induction calls arbitrary: L)
  case Nil
  then show ?case by simp
next
  case (Cons a calls)
  obtain i c d where a: "a = (i, c, d)" by (cases a)
  show ?case unfolding a ledger_after.simps
    by (rule Cons.IH) (rule markPublished_distinct [OF Cons.prems])
qed

text \<open>
  Claim C7. \<open>markPublished\<close> is idempotent: for an identity that has a record the call
  leaves the ledger as it is, so a second call after a first changes nothing, whatever
  category and date it is given; a ledger without duplicates stays without, and the
  ledger built from the empty one by any sequence of calls holds no identity twice.
\<close>

theorem markPublished_idempotent:
  "(contains i L \<longrightarrow> markPublished i c d L = L) \<and>
   markPublished i c' d' (markPublished i c d L) = markPublished i c d L \<and>
   (distinct (map rec_identity L) \<longrightarrow> distinct (map rec_identity (markPublished i c d L))) \<and>
   distinct (map rec_identity (ledger_after calls []))"
proof (intro conjI impI)
  show "markPublished i c d L = L" if "contains i L"
    using that by (simp add: markPublished_def)
  show "markPublished i c' d' (markPublished i c d L) = markPublished i c d L"
    using markPublished_contains [of i c d L] by (simp add: markPublished_def [of i c' d'])
  show "distinct (map rec_identity (markPublished i c d L))" if "distinct (map rec_identity L)"
    using that by (rule markPublished_distinct)
  show "distinct (map rec_identity (ledger_after calls []))"
    by (rule ledger_after_distinct) simp
qed

theorem markPublished_idempotent_witness:
  "markPublished ''B'' ''tools'' ''2024-01-14'' (markPublished ''B'' ''tools'' ''2024-01-13'' [])
     = [\<lparr> rec_identity = ''B'', rec_category = ''tools'', publishedAt = ''2024-01-13'' \<rparr>] \<and>
   distinct (map rec_identity
     (ledger_after [(''B'', ''tools'', ''2024-01-13''), (''B'', ''tools'', ''2024-01-14'')] []))"
  using markPublished_idempotent [of "''B''" "[]" "''tools''" "''2024-01-13''" "''tools''"
      "''2024-01-14''" "[(''B'', ''tools'', ''2024-01-13''), (''B'', ''tools'', ''2024-01-14'')]"]
  by (simp add: markPublished_def contains_def)

lemma selectForDate_eligible:
  assumes "selectForDate is_skill d cat L = Selected i"
  shows "i \<in> set cat \<and> eligible is_skill L i"
proof -
  let ?es = "filter (eligible is_skill L) cat"
  from assms have ne: "?es \<noteq> []" and i: "i = arg_min_list (rank_key (mostRecentCategory L)) ?es"
    by (auto simp: selectForDate_def split: list.splits)
  from arg_min_list_in [OF ne] i have "i \<in> set ?es" by simp
  then show ?thesis by simp
qed

text \<open>
  Claim C6. An item whose identity has a record in the ledger is never the selection,
  for any catalog, date and classification.
\<close>

theorem selector_excludes_published:
  "contains (identity i) L \<Longrightarrow> selectForDate is_skill d cat L \<noteq> Selected i"
  using selectForDate_eligible [of is_skill d cat L i] by (auto simp: eligible_def)

theorem selector_excludes_published_witness:
  "contains (identity item_B) (published_skills world_AB) \<and>
   selectForDate not_docs ''2024-01-13'' [item_A, item_B, item_C] (published_skills world_AB)
     \<noteq> Selected item_B"
proof -
  have h: "contains (identity item_B) (published_skills world_AB)"
    by (simp add: contains_def item_B_def world_AB_def)
  show ?thesis
    using h selector_excludes_published [OF h, of not_docs "''2024-01-13''" "[item_A, item_B, item_C]"]
    by simp
qed





section \<open>Properties of the driver\<close>

lemma sed_range_print_item:
  "sed_range False (''[select] selected'' # print_item i) = print_item i"
  by (simp add: print_item_def starts_with_def dq_def)

lemma spec_mark_published_distinct:
  "distinct (map rec_identity L) \<Longrightarrow>
   distinct (map rec_identity (snd (spec_mark_published k d c L)))"
  by (auto simp: spec_mark_published_def markPublished_distinct
           split: option.splits SelectionResult.splits)

text \<open>The two sample runs, evaluated.\<close>

lemmas sample_defs = run_13_def world_0_def world_AB_def SKILL_COUNT_def spec_select_daily_def
  selectForDate_def eligible_def contains_def not_docs_def item_A_def item_B_def item_C_def
  rank_key_def authority_key_def freshness_key_def diversity_key_def mostRecentCategory_def
  print_selection_def print_item_def starts_with_def printed_name_def dq_def
  spec_mark_published_def markPublished_def ARTICLE_FILE_def OUTPUT_DIR_def SAFE_SKILL_NAME_def
  sed_s_def safe_char_def sed_delete_unsafe_def bash_echo_def echo_option_def
  strip_trailing_newlines_def NL_def read_skill_name_def

lemma sample_article: "ARTICLE_FILE run_13 ''B'' =
    ''/home/u/Documents/Obsidian/ai'' @ [CHR 0xE8, CHR 0x87, CHR 0xAA, CHR 0xE5, CHR 0x8A, CHR 0xA8, CHR 0xE7, CHR 0x94, CHR 0x9F, CHR 0xE6, CHR 0x88, CHR 0x90]
      @ ''/skill-digest/2024-01-13-B.md''"
  by (simp add: sample_defs)

lemma sample_select_0:
  "sed_range False (select_daily run_13 (Some [item_A, item_B, item_C]) []) = print_item item_B"
  "read_skill_name run_13 (print_item item_B) = ''B''"
  "mark_published run_13 (Some [item_A, item_B, item_C]) [] =
     (0, [\<lparr> rec_identity = ''https://github.com/x/B'', rec_category = ''tools'',
            publishedAt = ''2024-01-13'' \<rparr>])"
  by (simp_all add: sample_defs)

lemma sample_select_AB:
  "selectForDate not_docs ''2024-01-13'' [item_A, item_B, item_C] (published_skills world_AB)
     = NoEligibleItem"
  "sed_range False (select_daily run_13 (Some [item_A, item_B, item_C]) (published_skills world_AB))
     = []"
  by (simp_all add: sample_defs)

lemma sample_run_0:
  "outcome (daily_skill_digest run_13 world_0) = Done"
  "events (daily_skill_digest run_13 world_0) =
     [FetchSkills, SelectDaily, GenerateArticle (ARTICLE_FILE run_13 ''B''), MarkPublishedCall,
      PublishCall WECHAT_APPID (publish_title ''B'') (ARTICLE_FILE run_13 ''B'') publish_author]"
  "published_skills (final (daily_skill_digest run_13 world_0)) =
     [\<lparr> rec_identity = ''https://github.com/x/B'', rec_category = ''tools'',
        publishedAt = ''2024-01-13'' \<rparr>]"
  "output_files (final (daily_skill_digest run_13 world_0)) = [ARTICLE_FILE run_13 ''B'']"
proof -
  have c: "snd (fetch_skills run_13 (skill_cache world_0)) = Some [item_A, item_B, item_C]"
    "published_skills world_0 = []" "output_files world_0 = []"
    "generate_article run_13 = (\<lambda>f files. (0, f # files))"
    "wechat_publish_dir run_13" "publish_script run_13" "SANGENG_API_KEY run_13 \<noteq> []"
    by (simp_all add: run_13_def world_0_def)
  have n: "print_item item_B \<noteq> []" by (simp add: print_item_def)
  show "outcome (daily_skill_digest run_13 world_0) = Done"
    "events (daily_skill_digest run_13 world_0) =
     [FetchSkills, SelectDaily, GenerateArticle (ARTICLE_FILE run_13 ''B''), MarkPublishedCall,
      PublishCall WECHAT_APPID (publish_title ''B'') (ARTICLE_FILE run_13 ''B'') publish_author]"
    "published_skills (final (daily_skill_digest run_13 world_0)) =
     [\<lparr> rec_identity = ''https://github.com/x/B'', rec_category = ''tools'',
        publishedAt = ''2024-01-13'' \<rparr>]"
    "output_files (final (daily_skill_digest run_13 world_0)) = [ARTICLE_FILE run_13 ''B'']"
    by (cases rule: run_cases [of run_13 world_0];
        simp add: c sample_select_0 n SKILL_COUNT_def)+
qed

lemma sample_run_AB:
  "outcome (daily_skill_digest run_13 world_AB) = Failed Selecting"
  "exit_status (daily_skill_digest run_13 world_AB) = 1"
  "events (daily_skill_digest run_13 world_AB) = [FetchSkills, SelectDaily]"
proof -
  have c: "snd (fetch_skills run_13 (skill_cache world_AB)) = Some [item_A, item_B, item_C]"
    by (simp add: run_13_def world_AB_def)
  show "outcome (daily_skill_digest run_13 world_AB) = Failed Selecting"
    "exit_status (daily_skill_digest run_13 world_AB) = 1"
    "events (daily_skill_digest run_13 world_AB) = [FetchSkills, SelectDaily]"
    by (cases rule: run_cases [of run_13 world_AB];
        simp add: c sample_select_AB SKILL_COUNT_def)+
qed

text \<open>
  Claim C4. When the refresh of step 1 fails, the run logs the warning and goes on with
  the cache file as the failed refresh left it: with at least one skill in it the run
  reaches the selection, which reads that cache; with none (or no readable file) the
  run ends as failed in the fetching stage with exit status 1.
\<close>

theorem fetch_failure_policy:
  fixes X w
  defines "r \<equiv> daily_skill_digest X w"
  defines "cache \<equiv> snd (fetch_skills X (skill_cache w))"
  assumes "fst (fetch_skills X (skill_cache w)) \<noteq> 0"
  shows "''Warning: Failed to refresh skills, using cached data'' \<in> set (logged r) \<and>
         (0 < SKILL_COUNT cache \<longrightarrow>
            outcome r \<noteq> Failed Fetching \<and> take 2 (events r) = [FetchSkills, SelectDaily] \<and>
            skill_cache (final r) = cache \<and>
            selected r = sed_range False (select_daily X cache (published_skills w))) \<and>
         (SKILL_COUNT cache = 0 \<longrightarrow>
            outcome r = Failed Fetching \<and> exit_status r = 1 \<and> events r = [FetchSkills])"
proof -
  have "''Warning: Failed to refresh skills, using cached data'' \<in> set (logged r)"
    unfolding r_def using assms(3) by (rule fetch_warning_logged)
  moreover have "(0 < SKILL_COUNT cache \<longrightarrow>
            outcome r \<noteq> Failed Fetching \<and> take 2 (events r) = [FetchSkills, SelectDaily] \<and>
            skill_cache (final r) = cache \<and>
            selected r = sed_range False (select_daily X cache (published_skills w))) \<and>
         (SKILL_COUNT cache = 0 \<longrightarrow>
            outcome r = Failed Fetching \<and> exit_status r = 1 \<and> events r = [FetchSkills])"
    unfolding r_def cache_def by (cases rule: run_cases [of X w]) simp_all
  ultimately show ?thesis by blast
qed

theorem fetch_failure_policy_witness:
  "outcome (daily_skill_digest (run_13\<lparr> fetch_skills := (\<lambda>c. (1, c)) \<rparr>) world_0) \<noteq> Failed Fetching \<and>
   outcome (daily_skill_digest (run_13\<lparr> fetch_skills := (\<lambda>c. (1, c)) \<rparr>)
              (world_0\<lparr> skill_cache := None \<rparr>)) = Failed Fetching"
  using fetch_failure_policy [of "run_13\<lparr> fetch_skills := (\<lambda>c. (1, c)) \<rparr>" world_0]
    fetch_failure_policy [of "run_13\<lparr> fetch_skills := (\<lambda>c. (1, c)) \<rparr>"
      "world_0\<lparr> skill_cache := None \<rparr>"]
  by (simp add: world_0_def SKILL_COUNT_def)

text \<open>
  The failure of the generator that the script detects: when the generator was called
  and its article file does not exist afterwards, the run ends as failed in the
  generating stage with exit status 1, neither the mark-published program nor the
  publisher is called, and the ledger is as before the run.
\<close>

lemma missing_article_fatal:
  fixes X w
  defines "r \<equiv> daily_skill_digest X w"
  assumes "GenerateArticle f \<in> set (events r)" and "f \<notin> set (output_files (final r))"
  shows "outcome r = Failed Generating \<and> exit_status r = 1 \<and>
         events r = [FetchSkills, SelectDaily, GenerateArticle f] \<and>
         published_skills (final r) = published_skills w"
  using assms(2,3) unfolding r_def
  by (cases rule: run_cases [of X w]) (auto split: if_splits)

text \<open>
  Claim C3 does not hold of the script. The exit status of \<open>generate_article.py\<close> is lost
  in the pipeline into \<open>tee\<close>, and the test that follows only asks whether the article
  file exists. In the run below the file of the day is already there when the run
  starts, the generator exits with status 1 and writes nothing, and the run still calls
  the mark-published program, which records the selected item B, and ends Done with
  exit status 0.
\<close>

theorem generation_failure_undetected:
  "fst (generate_article (run_13\<lparr> generate_article := (\<lambda>f files. (1, files)) \<rparr>)
          (ARTICLE_FILE run_13 ''B'') [ARTICLE_FILE run_13 ''B'']) = 1 \<and>
   outcome (daily_skill_digest (run_13\<lparr> generate_article := (\<lambda>f files. (1, files)) \<rparr>)
              (world_0\<lparr> output_files := [ARTICLE_FILE run_13 ''B''] \<rparr>)) = Done \<and>
   exit_status (daily_skill_digest (run_13\<lparr> generate_article := (\<lambda>f files. (1, files)) \<rparr>)
              (world_0\<lparr> output_files := [ARTICLE_FILE run_13 ''B''] \<rparr>)) = 0 \<and>
   MarkPublishedCall \<in> set (events (daily_skill_digest
              (run_13\<lparr> generate_article := (\<lambda>f files. (1, files)) \<rparr>)
              (world_0\<lparr> output_files := [ARTICLE_FILE run_13 ''B''] \<rparr>))) \<and>
   \<not> contains (identity item_B) (published_skills (world_0\<lparr> output_files := [ARTICLE_FILE run_13 ''B''] \<rparr>)) \<and>
   contains (identity item_B) (published_skills (final (daily_skill_digest
              (run_13\<lparr> generate_article := (\<lambda>f files. (1, files)) \<rparr>)
              (world_0\<lparr> output_files := [ARTICLE_FILE run_13 ''B''] \<rparr>))))"
proof -
  let ?X = "run_13\<lparr> generate_article := (\<lambda>f files. (1, files)) \<rparr>"
  let ?w = "world_0\<lparr> output_files := [ARTICLE_FILE run_13 ''B''] \<rparr>"
  let ?r = "daily_skill_digest ?X ?w"
  have c: "snd (fetch_skills ?X (skill_cache ?w)) = Some [item_A, item_B, item_C]"
    "published_skills ?w = []" "output_files ?w = [ARTICLE_FILE run_13 ''B'']"
    by (simp_all add: run_13_def world_0_def)
  have d: "select_daily ?X = select_daily run_13" "read_skill_name ?X = read_skill_name run_13"
    "mark_published ?X = mark_published run_13"
    "ARTICLE_FILE ?X = ARTICLE_FILE run_13" "generate_article ?X = (\<lambda>f files. (1, files))"
    by (simp_all add: ARTICLE_FILE_def OUTPUT_DIR_def read_skill_name_def fun_eq_iff)
  have n: "print_item item_B \<noteq> []" by (simp add: print_item_def)
  have o: "outcome ?r = Done"
    by (cases rule: run_cases [of ?X ?w])
       (simp_all only: c d sample_select_0 n, simp_all add: SKILL_COUNT_def)
  have x: "exit_status ?r = 0"
    by (cases rule: run_cases [of ?X ?w])
       (simp_all only: c d sample_select_0 n, simp_all add: SKILL_COUNT_def)
  have e: "MarkPublishedCall \<in> set (events ?r)"
    by (cases rule: run_cases [of ?X ?w])
       (simp_all only: c d sample_select_0 n, simp_all add: SKILL_COUNT_def)
  have l: "published_skills (final ?r) =
     [\<lparr> rec_identity = ''https://github.com/x/B'', rec_category = ''tools'',
        publishedAt = ''2024-01-13'' \<rparr>]"
    by (cases rule: run_cases [of ?X ?w])
       (simp_all only: c d sample_select_0 n, simp_all add: SKILL_COUNT_def)
  show ?thesis
    by (simp only: o x e l) (simp add: world_0_def contains_def item_B_def)
qed

text \<open>
  Claim C1, as the code has it. When the generator was called and its article file
  exists afterwards, the mark-published program runs next, before any publish call, and
  the ledger at the end of the run is the one it leaves, whatever the publisher does; when
  it exits with status 0 the run ends Done with exit status 0. With the selector and the
  \<open>markPublished\<close> of the spec the selected item is then in the ledger at the end of the
  run, also when \<open>publish.py\<close> fails, and the ledger holds no identity twice if it held
  none twice before.
\<close>

theorem mark_before_publish:
  fixes X w
  defines "r \<equiv> daily_skill_digest X w"
  defines "m \<equiv> mark_published X (skill_cache (final r)) (published_skills w)"
  assumes "GenerateArticle f \<in> set (events r)" and "f \<in> set (output_files (final r))"
  shows "(\<exists>es. events r = [FetchSkills, SelectDaily, GenerateArticle f, MarkPublishedCall] @ es \<and>
              (\<forall>e \<in> set es. \<exists>a t u. e = PublishCall a t f u)) \<and>
         published_skills (final r) = snd m \<and>
         (fst m = 0 \<longrightarrow> outcome r = Done \<and> exit_status r = 0) \<and>
         (\<forall>k d. select_daily X = spec_select_daily k d \<and>
                mark_published X = spec_mark_published k d \<longrightarrow>
                (\<exists>cat i. skill_cache (final r) = Some cat \<and>
                   selectForDate k d cat (published_skills w) = Selected i \<and>
                   selected r = print_item i \<and>
                   contains (identity i) (published_skills (final r)) \<and>
                   outcome r = Done \<and> exit_status r = 0)) \<and>
         (\<forall>k d. mark_published X = spec_mark_published k d \<and>
                distinct (map rec_identity (published_skills w)) \<longrightarrow>
                distinct (map rec_identity (published_skills (final r))))"
proof -
  let ?cache = "skill_cache (final r)"
  let ?L = "published_skills w"
  have main: "(\<exists>es. events r = [FetchSkills, SelectDaily, GenerateArticle f, MarkPublishedCall] @ es \<and>
              (\<forall>e \<in> set es. \<exists>a t u. e = PublishCall a t f u)) \<and>
         published_skills (final r) = snd m \<and>
         (fst m = 0 \<longrightarrow> outcome r = Done \<and> exit_status r = 0)"
    using assms(3,4) unfolding m_def r_def
    by (cases rule: run_cases [of X w]) (auto split: if_splits)
  have sel: "SKILL_COUNT ?cache \<noteq> 0 \<and> selected r = sed_range False (select_daily X ?cache ?L) \<and>
             selected r \<noteq> []"
    using assms(3,4) unfolding r_def
    by (cases rule: run_cases [of X w]) (auto split: if_splits)
  have spec: "\<exists>cat i. ?cache = Some cat \<and> selectForDate k d cat ?L = Selected i \<and>
                selected r = print_item i \<and> contains (identity i) (published_skills (final r)) \<and>
                outcome r = Done \<and> exit_status r = 0"
    if s: "select_daily X = spec_select_daily k d"
      and p: "mark_published X = spec_mark_published k d" for k d
  proof -
    from sel obtain cat where cat: "?cache = Some cat"
      by (cases ?cache) (auto simp: SKILL_COUNT_def)
    have SEL: "selected r = sed_range False (print_selection (selectForDate k d cat ?L))"
      using sel by (simp add: s cat spec_select_daily_def)
    show ?thesis
    proof (cases "selectForDate k d cat ?L")
      case NoEligibleItem
      with SEL have "selected r = []"
        by (simp add: print_selection_def starts_with_def)
      with sel show ?thesis by simp
    next
      case (Selected i)
      have pi: "selected r = print_item i"
        using SEL by (simp only: Selected print_selection_def SelectionResult.case sed_range_print_item)
      have m: "m = (0, markPublished (identity i) (category i) d ?L)"
        by (simp add: m_def p cat spec_mark_published_def Selected)
      with main have "published_skills (final r) = markPublished (identity i) (category i) d ?L"
        "outcome r = Done" "exit_status r = 0"
        by simp_all
      with cat Selected pi show ?thesis
        by (simp add: markPublished_contains)
    qed
  qed
  have "distinct (map rec_identity (published_skills (final r)))"
    if "mark_published X = spec_mark_published k d"
      "distinct (map rec_identity (published_skills w))" for k d
    using main that spec_mark_published_distinct [of "published_skills w" k d "skill_cache (final r)"]
    by (simp add: m_def)
  with main spec show ?thesis by blast
qed

theorem mark_before_publish_witness:
  "GenerateArticle (ARTICLE_FILE run_13 ''B'') \<in> set (events (daily_skill_digest run_13 world_0)) \<and>
   ARTICLE_FILE run_13 ''B'' \<in> set (output_files (final (daily_skill_digest run_13 world_0))) \<and>
   publish run_13 WECHAT_APPID (publish_title ''B'') (ARTICLE_FILE run_13 ''B'') publish_author \<noteq> 0 \<and>
   (\<exists>i. selected (daily_skill_digest run_13 world_0) = print_item i \<and>
        contains (identity i) (published_skills (final (daily_skill_digest run_13 world_0))) \<and>
        outcome (daily_skill_digest run_13 world_0) = Done)"
proof -
  have 1: "GenerateArticle (ARTICLE_FILE run_13 ''B'') \<in> set (events (daily_skill_digest run_13 world_0))"
    by (simp only: sample_run_0) simp
  have 2: "ARTICLE_FILE run_13 ''B'' \<in> set (output_files (final (daily_skill_digest run_13 world_0)))"
    by (simp only: sample_run_0) simp
  have 3: "select_daily run_13 = spec_select_daily not_docs ''2024-01-13'' \<and>
           mark_published run_13 = spec_mark_published not_docs ''2024-01-13''"
    by (simp add: run_13_def)
  have 4: "publish run_13 WECHAT_APPID (publish_title ''B'') (ARTICLE_FILE run_13 ''B'') publish_author \<noteq> 0"
    by (simp add: run_13_def)
  show ?thesis
    using 1 2 3 4 mark_before_publish [OF 1 2] by blast
qed

text \<open>
  Claim C1 as stated fails: in the sample run the generator writes the article,
  \<open>publish.py\<close> is called and exits with status 1, and the ledger, empty before the run,
  holds the record of the selected item B after it.
\<close>

theorem publish_failure_counterexample:
  "publish run_13 WECHAT_APPID (publish_title ''B'') (ARTICLE_FILE run_13 ''B'') publish_author = 1 \<and>
   PublishCall WECHAT_APPID (publish_title ''B'') (ARTICLE_FILE run_13 ''B'') publish_author
     \<in> set (events (daily_skill_digest run_13 world_0)) \<and>
   ARTICLE_FILE run_13 ''B'' \<in> set (output_files (final (daily_skill_digest run_13 world_0))) \<and>
   \<not> contains (identity item_B) (published_skills world_0) \<and>
   contains (identity item_B) (published_skills (final (daily_skill_digest run_13 world_0)))"
  by (simp add: sample_run_0) (simp add: run_13_def world_0_def contains_def item_B_def)

text \<open>
  Claim C2, as the code has it. When step 2 is reached and the output of the selector
  holds no JSON object, the run ends as failed in the selecting stage with exit status
  1: no generator, mark-published or publish call, no file written, the ledger as it
  was. And no run ends Done without an article file that the generator was called for.
\<close>

theorem no_selection_fails:
  fixes X w
  defines "r \<equiv> daily_skill_digest X w"
  shows "(SelectDaily \<in> set (events r) \<and>
          sed_range False (select_daily X (skill_cache (final r)) (published_skills w)) = [] \<longrightarrow>
            outcome r = Failed Selecting \<and> exit_status r = 1 \<and>
            events r = [FetchSkills, SelectDaily] \<and>
            output_files (final r) = output_files w \<and>
            published_skills (final r) = published_skills w) \<and>
         (outcome r = Done \<longrightarrow>
            (\<exists>f. GenerateArticle f \<in> set (events r) \<and> f \<in> set (output_files (final r))))"
  unfolding r_def by (cases rule: run_cases [of X w]) simp_all

theorem no_selection_fails_witness:
  "outcome (daily_skill_digest run_13 world_AB) = Failed Selecting \<and>
   events (daily_skill_digest run_13 world_AB) = [FetchSkills, SelectDaily] \<and>
   published_skills (final (daily_skill_digest run_13 world_AB)) = published_skills world_AB"
proof -
  have c: "skill_cache (final (daily_skill_digest run_13 world_AB)) = Some [item_A, item_B, item_C]"
    by (cases rule: run_cases [of run_13 world_AB]; simp add: run_13_def world_AB_def)+
  show ?thesis
    using no_selection_fails [of run_13 world_AB]
    by (simp add: sample_run_AB c sample_select_AB)
qed

text \<open>
  Claim C2 as stated fails: with A and B published and C rejected as documentation the
  selector of the spec yields "no eligible item", and the run ends as failed in the
  selecting stage with exit status 1, not Done.
\<close>

theorem no_eligible_counterexample:
  "selectForDate not_docs ''2024-01-13'' [item_A, item_B, item_C] (published_skills world_AB)
     = NoEligibleItem \<and>
   skill_cache world_AB = Some [item_A, item_B, item_C] \<and>
   outcome (daily_skill_digest run_13 world_AB) = Failed Selecting \<and>
   exit_status (daily_skill_digest run_13 world_AB) = 1"
  by (simp add: sample_run_AB sample_select_AB) (simp add: world_AB_def)

lemma SAFE_SKILL_NAME_examples:
  "SAFE_SKILL_NAME ''PDF Tools/v2 (beta)'' = ''PDF-Tools-v2-beta''"
  "SAFE_SKILL_NAME ''-n'' = []"
  "SAFE_SKILL_NAME ''-e'' = []"
  "SAFE_SKILL_NAME ''-neE'' = []"
  "SAFE_SKILL_NAME ''-x'' = ''-x''"
  "SAFE_SKILL_NAME ''-n foo'' = ''-n-foo''"
  "SAFE_SKILL_NAME (''x y'' @ [NL] @ ''z/w'') = ''x-y'' @ [NL] @ ''z-w''"
  "SAFE_SKILL_NAME (''a'' @ [NL] @ ''?!'') = ''a''"
  "SAFE_SKILL_NAME (''caf'' @ [CHR 0xC3, CHR 0xA9] @ '' x'') = ''caf-x''"
  by (simp_all add: SAFE_SKILL_NAME_def sed_delete_unsafe_def sed_s_def safe_char_def
      bash_echo_def echo_option_def strip_trailing_newlines_def NL_def)

text \<open>
  Claim C8, as the code has it. The file the generator is called for is named by the
  output directory, the date and the name that step 2 read from the selection (the
  \<open>name\<close> field, not the identity), passed through \<open>echo\<close> and the three \<open>sed\<close> commands;
  so two runs with the same home directory and date that read the same name write the
  same path.
\<close>

theorem article_path_by_date_and_name:
  assumes "GenerateArticle f \<in> set (events (daily_skill_digest X w))"
  shows "f = OUTPUT_DIR X @ ''/'' @ today X @ ''-'' @
               SAFE_SKILL_NAME (read_skill_name X (selected (daily_skill_digest X w))) @ ''.md'' \<and>
         (\<forall>X' w' f'. GenerateArticle f' \<in> set (events (daily_skill_digest X' w')) \<and>
             HOME X' = HOME X \<and> today X' = today X \<and>
             read_skill_name X' (selected (daily_skill_digest X' w'))
               = read_skill_name X (selected (daily_skill_digest X w)) \<longrightarrow> f' = f)"
proof -
  have one: "f = ARTICLE_FILE X (read_skill_name X (selected (daily_skill_digest X w)))"
    if "GenerateArticle f \<in> set (events (daily_skill_digest X w))" for X w f
    using that
    by (cases rule: run_cases [of X w]) (auto split: if_splits)
  have "f' = f"
    if "GenerateArticle f' \<in> set (events (daily_skill_digest X' w'))"
      "HOME X' = HOME X" "today X' = today X"
      "read_skill_name X' (selected (daily_skill_digest X' w'))
         = read_skill_name X (selected (daily_skill_digest X w))" for X' w' f'
    using one [OF that(1)] one [OF assms] that(2-4)
    by (simp add: ARTICLE_FILE_def OUTPUT_DIR_def)
  with one [OF assms] show ?thesis by (auto simp: ARTICLE_FILE_def)
qed

theorem article_path_by_date_and_name_witness:
  "GenerateArticle (ARTICLE_FILE run_13 ''B'') \<in> set (events (daily_skill_digest run_13 world_0)) \<and>
   ARTICLE_FILE run_13 ''B'' =
     OUTPUT_DIR run_13 @ ''/'' @ today run_13 @ ''-'' @
       SAFE_SKILL_NAME (read_skill_name run_13 (selected (daily_skill_digest run_13 world_0))) @ ''.md''"
proof -
  have 1: "GenerateArticle (ARTICLE_FILE run_13 ''B'') \<in> set (events (daily_skill_digest run_13 world_0))"
    by (simp only: sample_run_0) simp
  show ?thesis
    using 1 article_path_by_date_and_name [OF 1] by blast
qed

text \<open>
  Claim C8 as stated fails: the path is not a function of date and identity. An item
  that keeps its identity and changes its name gets another path on the same date, and
  two items of different identities whose names sanitize alike get the same path.
\<close>

theorem article_path_identity_counterexample:
  "identity (item_A\<lparr> name := ''A v2'' \<rparr>) = identity item_A \<and>
   ARTICLE_FILE run_13 (name (item_A\<lparr> name := ''A v2'' \<rparr>)) \<noteq> ARTICLE_FILE run_13 (name item_A) \<and>
   identity (item_B\<lparr> name := ''A!'' \<rparr>) \<noteq> identity item_A \<and>
   ARTICLE_FILE run_13 (name (item_B\<lparr> name := ''A!'' \<rparr>)) = ARTICLE_FILE run_13 (name item_A)"
  by (simp add: item_A_def item_B_def ARTICLE_FILE_def SAFE_SKILL_NAME_def sed_s_def safe_char_def
      sed_delete_unsafe_def bash_echo_def echo_option_def strip_trailing_newlines_def NL_def)

end
